theory Spec2Isabelle
  imports Main "HOL-Library.AList"
begin

section \<open>Data model\<close>

text \<open>
  The table types of \<^verbatim>\<open>types/elements\<close> as the source files use them. JavaScript
  strings are modelled as \<^typ>\<open>string\<close>, read as sequences of the code units
  U+0000 to U+00FF. The fields \<^verbatim>\<open>id\<close> are renamed (\<open>rowId\<close>, \<open>tableId\<close>) because
  \<open>id\<close> is the identity function of HOL, and \<^verbatim>\<open>cells\<close> of the head is \<open>headCells\<close>.
\<close>

record PropsUITableRow =
  rowId :: string
  cells :: "string list"

record PropsUITableHead =
  headCells :: "string list"

record PropsUITableBody =
  rows :: "PropsUITableRow list"

record VisualizationType =
  visType :: string

record TableWithContext =
  tableId :: string
  head :: PropsUITableHead
  body :: PropsUITableBody
  title :: string
  description :: string
  deletedRowCount :: int
  annotations :: "string list"
  originalBody :: PropsUITableBody
  deletedRows :: "string list list"
  visualizations :: "VisualizationType list option"

section \<open>Exceptions and strings of the runtime\<close>

text \<open>
  A thrown JavaScript exception is a value: its class and its message. A function that
  may throw returns \<open>exn + 'a\<close>, with \<open>Inl\<close> the exception.
\<close>

datatype errorClass = Error | RangeError | SyntaxError | TypeError | AssertionError

datatype exn = Exn errorClass string

text \<open>\<^verbatim>\<open>Array.prototype.map\<close> with a callback that may throw: the first exception ends the loop.\<close>

fun mapE :: "('a \<Rightarrow> 'e + 'b) \<Rightarrow> 'a list \<Rightarrow> 'e + 'b list" where
  "mapE f [] = Inr []"
| "mapE f (x # xs) =
     (case f x of
        Inl e \<Rightarrow> Inl e
      | Inr y \<Rightarrow> (case mapE f xs of Inl e \<Rightarrow> Inl e | Inr ys \<Rightarrow> Inr (y # ys)))"

text \<open>
  \<^verbatim>\<open>String.prototype.trim\<close>: white space and line terminators are removed at both ends.
  In the range U+0000 to U+00FF these are TAB, LF, VT, FF, CR, SP and NBSP.
\<close>

definition isWhiteSpace :: "char \<Rightarrow> bool" where
  "isWhiteSpace c = (c \<in> {CHR 0x09, CHR 0x0A, CHR 0x0B, CHR 0x0C, CHR 0x0D, CHR 0x20, CHR 0xA0})"

definition trim :: "string \<Rightarrow> string" where
  "trim s = rev (dropWhile isWhiteSpace (rev (dropWhile isWhiteSpace s)))"

text \<open>
  The template literal \<^verbatim>\<open>`${n}`\<close> of an integer-valued number: decimal digits, with a
  minus sign for a negative number.
\<close>

definition digitChar :: "nat \<Rightarrow> char" where
  "digitChar d = ''0123456789'' ! d"

fun natString :: "nat \<Rightarrow> string" where
  "natString n = (if n < 10 then [digitChar n] else natString (n div 10) @ [digitChar (n mod 10)])"

declare natString.simps [simp del]

definition intString :: "int \<Rightarrow> string" where
  "intString i = (if i < 0 then CHR ''-'' # natString (nat (- i)) else natString (nat i))"

section \<open>Row search\<close>

text \<open>
  \<^verbatim>\<open>q.replace(/[-/\\^$*+?.()|[\]{}]/, '\\$&')\<close>: the pattern has no \<^verbatim>\<open>g\<close> flag, so only the
  first character of \<^verbatim>\<open>q\<close> that lies in the class is replaced, by a backslash followed
  by itself.
\<close>

definition isSpecial :: "char \<Rightarrow> bool" where
  "isSpecial c = (c \<in> set (''-/^$*+?.()|[]{}'' @ [CHR 0x5C]))"

fun escapeFirst :: "string \<Rightarrow> string" where
  "escapeFirst [] = []"
| "escapeFirst (c # cs) = (if isSpecial c then CHR 0x5C # c # cs else c # escapeFirst cs)"

text \<open>
  \<^verbatim>\<open>new RegExp(pattern, flags)\<close> belongs to the runtime, not to the repository: it is a
  parameter of the model. It throws (a \<^verbatim>\<open>SyntaxError\<close>) or returns a regular expression,
  of which the code uses \<^verbatim>\<open>test\<close> only (without the \<^verbatim>\<open>g\<close> flag \<^verbatim>\<open>test\<close> keeps no state).
\<close>

type_synonym RegExpCtor = "string \<Rightarrow> string \<Rightarrow> exn + (string \<Rightarrow> bool)"

text \<open>The loop over the cells of a row, left at the first cell that matches.\<close>

fun cellLoop :: "(string \<Rightarrow> bool) \<Rightarrow> string list \<Rightarrow> bool \<Rightarrow> bool" where
  "cellLoop regex [] matchesSearch = matchesSearch"
| "cellLoop regex (cell # cs) matchesSearch =
     (if regex cell then True else cellLoop regex cs matchesSearch)"

text \<open>The loop over the regular expressions, left as soon as \<^verbatim>\<open>matchesSearch\<close> holds.\<close>

fun regexLoop :: "(string \<Rightarrow> bool) list \<Rightarrow> string list \<Rightarrow> bool \<Rightarrow> bool" where
  "regexLoop [] cs matchesSearch = matchesSearch"
| "regexLoop (regex # rs) cs matchesSearch =
     (let m = cellLoop regex cs matchesSearch
      in if m then m else regexLoop rs cs m)"

text \<open>\<^verbatim>\<open>row.cells.findIndex((cell, index) => index === 0)\<close>.\<close>

definition dataTypeIndexOf :: "string list \<Rightarrow> int" where
  "dataTypeIndexOf cs = (if cs = [] then - 1 else 0)"

definition rowMatches ::
  "(string \<Rightarrow> bool) list \<Rightarrow> string \<Rightarrow> string option \<Rightarrow> PropsUITableRow \<Rightarrow> bool" where
  "rowMatches regexes srch dtf row =
     (let matchesSearch0 = (trim srch = []);
          matchesDataType0 = (dtf = None);
          matchesSearch = regexLoop regexes (cells row) matchesSearch0;
          dataTypeIndex = dataTypeIndexOf (cells row);
          matchesDataType =
            (if dataTypeIndex \<noteq> - 1 \<and>
                (dtf = None \<or> Some (cells row ! nat dataTypeIndex) = dtf)
             then True else matchesDataType0)
      in matchesSearch \<and> matchesDataType)"

text \<open>
  \<^verbatim>\<open>searchRows\<close>: \<open>Inr None\<close> is the return value \<^verbatim>\<open>undefined\<close>, \<open>Inr (Some ids)\<close> a set
  of row identifiers, \<open>Inl e\<close> an exception of the \<^verbatim>\<open>RegExp\<close> constructor.
\<close>

definition searchRows ::
  "RegExpCtor \<Rightarrow> PropsUITableRow list \<Rightarrow> string \<Rightarrow> string option \<Rightarrow> exn + string set option" where
  "searchRows RegExp rws srch dtf =
     (if trim srch = [] \<and> dtf = None then Inr None
      else
        let query = [trim srch] in
        case mapE (\<lambda>q. RegExp (escapeFirst q) ''i'') query of
          Inl e \<Rightarrow> Inl e
        | Inr regexes \<Rightarrow>
            Inr (Some (fold (\<lambda>row ids. if rowMatches regexes srch dtf row
                                       then insert (rowId row) ids else ids) rws {})))"

text \<open>
  A fragment of the regular expressions of the runtime, for evaluating \<^verbatim>\<open>searchRows\<close> on
  concrete inputs: a pattern made of ordinary characters, of escaped characters
  (a backslash before a syntax character, \<^verbatim>\<open>-\<close> or \<^verbatim>\<open>/\<close>) and of the wildcard \<^verbatim>\<open>.\<close>,
  which matches every character but a line terminator. With the flag \<^verbatim>\<open>i\<close> two
  characters match when their upper-case forms agree. \<open>fragmentRegExp\<close> rejects every
  other pattern, also those that the runtime accepts; it is used on patterns of the
  fragment only.
\<close>

datatype atom = Lit char | AnyChar

definition isSyntaxCharacter :: "char \<Rightarrow> bool" where
  "isSyntaxCharacter c = (c \<in> set (''^$.*+?()[]{}|'' @ [CHR 0x5C]))"

definition isLineTerminator :: "char \<Rightarrow> bool" where
  "isLineTerminator c = (c = CHR 0x0A \<or> c = CHR 0x0D)"

definition lowerCase :: string where
  "lowerCase = ''abcdefghijklmnopqrstuvwxyz'' @
     [CHR 0xE0, CHR 0xE1, CHR 0xE2, CHR 0xE3, CHR 0xE4, CHR 0xE5, CHR 0xE6, CHR 0xE7,
      CHR 0xE8, CHR 0xE9, CHR 0xEA, CHR 0xEB, CHR 0xEC, CHR 0xED, CHR 0xEE, CHR 0xEF,
      CHR 0xF0, CHR 0xF1, CHR 0xF2, CHR 0xF3, CHR 0xF4, CHR 0xF5, CHR 0xF6,
      CHR 0xF8, CHR 0xF9, CHR 0xFA, CHR 0xFB, CHR 0xFC, CHR 0xFD, CHR 0xFE]"

definition upperCase :: string where
  "upperCase = ''ABCDEFGHIJKLMNOPQRSTUVWXYZ'' @
     [CHR 0xC0, CHR 0xC1, CHR 0xC2, CHR 0xC3, CHR 0xC4, CHR 0xC5, CHR 0xC6, CHR 0xC7,
      CHR 0xC8, CHR 0xC9, CHR 0xCA, CHR 0xCB, CHR 0xCC, CHR 0xCD, CHR 0xCE, CHR 0xCF,
      CHR 0xD0, CHR 0xD1, CHR 0xD2, CHR 0xD3, CHR 0xD4, CHR 0xD5, CHR 0xD6,
      CHR 0xD8, CHR 0xD9, CHR 0xDA, CHR 0xDB, CHR 0xDC, CHR 0xDD, CHR 0xDE]"

definition canonicalize :: "char \<Rightarrow> char" where
  "canonicalize c = (case map_of (zip lowerCase upperCase) c of Some u \<Rightarrow> u | None \<Rightarrow> c)"

fun parsePattern :: "string \<Rightarrow> atom list option" where
  "parsePattern [] = Some []"
| "parsePattern (c # cs) =
     (if c = CHR 0x5C then
        (case cs of
           [] \<Rightarrow> None
         | d # ds \<Rightarrow>
             if isSyntaxCharacter d \<or> d = CHR ''-'' \<or> d = CHR ''/''
             then map_option ((#) (Lit d)) (parsePattern ds) else None)
      else if c = CHR ''.'' then map_option ((#) AnyChar) (parsePattern cs)
      else if isSyntaxCharacter c then None
      else map_option ((#) (Lit c)) (parsePattern cs))"

fun matchAtoms :: "(char \<Rightarrow> char) \<Rightarrow> atom list \<Rightarrow> string \<Rightarrow> bool" where
  "matchAtoms canon [] s = True"
| "matchAtoms canon (a # as) [] = False"
| "matchAtoms canon (Lit c # as) (d # ds) = (canon c = canon d \<and> matchAtoms canon as ds)"
| "matchAtoms canon (AnyChar # as) (d # ds) = (\<not> isLineTerminator d \<and> matchAtoms canon as ds)"

fun testAtoms :: "(char \<Rightarrow> char) \<Rightarrow> atom list \<Rightarrow> string \<Rightarrow> bool" where
  "testAtoms canon as [] = matchAtoms canon as []"
| "testAtoms canon as (d # ds) = (matchAtoms canon as (d # ds) \<or> testAtoms canon as ds)"

definition fragmentRegExp :: RegExpCtor where
  "fragmentRegExp pattern flags =
     (case parsePattern pattern of
        None \<Rightarrow> Inl (Exn SyntaxError (''Invalid regular expression: /'' @ pattern @ ''/''))
      | Some as \<Rightarrow>
          if flags = ''i'' then Inr (testAtoms canonicalize as)
          else if flags = [] then Inr (testAtoms (\<lambda>c. c) as)
          else Inl (Exn SyntaxError ''Invalid flags supplied to RegExp constructor''))"

text \<open>
  The words of the specification: the cell contains the query as a literal substring,
  upper and lower case taken as equal.
\<close>

fun prefixCI :: "string \<Rightarrow> string \<Rightarrow> bool" where
  "prefixCI [] s = True"
| "prefixCI (q # qs) [] = False"
| "prefixCI (q # qs) (d # ds) = (canonicalize q = canonicalize d \<and> prefixCI qs ds)"

fun containsCI :: "string \<Rightarrow> string \<Rightarrow> bool" where
  "containsCI [] q = prefixCI q []"
| "containsCI (d # ds) q = (prefixCI q (d # ds) \<or> containsCI ds q)"

section \<open>Redaction ledger (table container)\<close>

text \<open>
  \<^verbatim>\<open>deleteTableRows\<close>: the two nested loops fill the set \<^verbatim>\<open>deleteIds\<close>, then the
  original rows are filtered and the count is the difference of the two lengths.
\<close>

definition deleteIdsOf :: "string list list \<Rightarrow> string set" where
  "deleteIdsOf deletedRowsArg =
     fold (\<lambda>deletedSet ids. fold (\<lambda>i ids'. insert i ids') deletedSet ids) deletedRowsArg {}"

definition deleteTableRows :: "TableWithContext \<Rightarrow> string list list \<Rightarrow> TableWithContext" where
  "deleteTableRows table deletedRowsArg =
     (let deleteIds = deleteIdsOf deletedRowsArg;
          rws = filter (\<lambda>row. rowId row \<notin> deleteIds) (rows (originalBody table));
          cnt = int (length (rows (originalBody table))) - int (length rws)
      in table\<lparr>body := (body table)\<lparr>rows := rws\<rparr>,
               deletedRowCount := cnt,
               deletedRows := deletedRowsArg\<rparr>)"

text \<open>
  The state of one \<^verbatim>\<open>TableContainer\<close>: the \<^verbatim>\<open>table\<close> prop (replaced through
  \<^verbatim>\<open>updateTable\<close>) and the three pieces of search state held by \<^verbatim>\<open>useState\<close>.
\<close>

record TableContainer =
  table :: TableWithContext
  searchFilterIds :: "string set option"
  dataTypeFilter :: "string option"
  search :: string

definition searchedTable :: "TableContainer \<Rightarrow> TableWithContext" where
  "searchedTable c =
     (case searchFilterIds c of
        None \<Rightarrow> table c
      | Some ids \<Rightarrow>
          (table c)\<lparr>body := (body (table c))
             \<lparr>rows := filter (\<lambda>row. rowId row \<in> ids) (rows (body (table c)))\<rparr>\<rparr>)"

text \<open>
  \<^verbatim>\<open>handleDelete(rowIds?)\<close>: \<open>None\<close> is the call without argument, which takes the
  identifiers of all rows of the searched table. An empty list changes nothing.
\<close>

definition handleDelete :: "TableContainer \<Rightarrow> string list option \<Rightarrow> TableContainer" where
  "handleDelete c rowIdsArg =
     (let rowIds = (case rowIdsArg of
                      None \<Rightarrow> map rowId (rows (body (searchedTable c)))
                    | Some r \<Rightarrow> r)
      in if length rowIds > 0 then
           let c1 = (if length rowIds = length (rows (body (searchedTable c)))
                     then c\<lparr>search := [], dataTypeFilter := None, searchFilterIds := None\<rparr>
                     else c);
               newDeletedRows = deletedRows (table c) @ [rowIds];
               newTable = deleteTableRows (table c) newDeletedRows
           in c1\<lparr>table := newTable\<rparr>
         else c)"

text \<open>\<^verbatim>\<open>handleUndo\<close>: \<^verbatim>\<open>slice(0, -1)\<close> drops the last batch (and is empty on an empty list).\<close>

definition handleUndo :: "TableContainer \<Rightarrow> TableContainer" where
  "handleUndo c =
     (let newDeletedRows = butlast (deletedRows (table c));
          newTable = deleteTableRows (table c) newDeletedRows
      in c\<lparr>table := newTable\<rparr>)"

text \<open>
  The events of a container: typing in the search bar, choosing a data type
  (\<^verbatim>\<open>handleDataTypeFilter\<close>), the debounce timer of the search effect running, and the
  two ledger actions. An exception in the timer callback leaves the state as it is.
\<close>

datatype event =
    OnSearch string
  | OnDataTypeFilter string
  | SearchTimer
  | Delete "string list option"
  | Undo

fun step :: "RegExpCtor \<Rightarrow> TableContainer \<Rightarrow> event \<Rightarrow> TableContainer" where
  "step RegExp c (OnSearch s) = c\<lparr>search := s\<rparr>"
| "step RegExp c (OnDataTypeFilter dataType) =
     c\<lparr>dataTypeFilter := (if dataType = [] then None else Some dataType)\<rparr>"
| "step RegExp c SearchTimer =
     (case searchRows RegExp (rows (originalBody (table c))) (search c) (dataTypeFilter c) of
        Inl e \<Rightarrow> c
      | Inr ids \<Rightarrow> c\<lparr>searchFilterIds := ids\<rparr>)"
| "step RegExp c (Delete rowIdsArg) = handleDelete c rowIdsArg"
| "step RegExp c Undo = handleUndo c"

fun run :: "RegExpCtor \<Rightarrow> TableContainer \<Rightarrow> event list \<Rightarrow> TableContainer" where
  "run RegExp c [] = c"
| "run RegExp c (ev # evs) = run RegExp (step RegExp c ev) evs"

text \<open>
  The ledger actions of a run: for each delete event the batch that \<^verbatim>\<open>handleDelete\<close>
  works with (the given identifiers, or those of the searched table when none are
  given), and each undo; and what an action does to a table.
\<close>

datatype ledgerOp = Batch "string list" | UndoLast

definition deletionBatch :: "TableContainer \<Rightarrow> string list option \<Rightarrow> string list" where
  "deletionBatch c rowIdsArg =
     (case rowIdsArg of
        None \<Rightarrow> map rowId (rows (body (searchedTable c)))
      | Some r \<Rightarrow> r)"

fun eventOps :: "TableContainer \<Rightarrow> event \<Rightarrow> ledgerOp list" where
  "eventOps c (Delete rowIdsArg) = [Batch (deletionBatch c rowIdsArg)]"
| "eventOps c Undo = [UndoLast]"
| "eventOps c ev = []"

fun ledgerTrace :: "RegExpCtor \<Rightarrow> TableContainer \<Rightarrow> event list \<Rightarrow> ledgerOp list" where
  "ledgerTrace RegExp c [] = []"
| "ledgerTrace RegExp c (ev # evs) = eventOps c ev @ ledgerTrace RegExp (step RegExp c ev) evs"

fun applyLedgerOp :: "TableWithContext \<Rightarrow> ledgerOp \<Rightarrow> TableWithContext" where
  "applyLedgerOp t (Batch ids) =
     (if ids = [] then t else deleteTableRows t (deletedRows t @ [ids]))"
| "applyLedgerOp t UndoLast = deleteTableRows t (butlast (deletedRows t))"

text \<open>
  The invariant of the data model, in the words of the specification: the body is the
  original body without the rows whose identifier occurs in some batch of the ledger, and
  the count is the difference of the lengths.
\<close>

definition ledgerInvariant :: "TableWithContext \<Rightarrow> bool" where
  "ledgerInvariant t =
     (rows (body t) =
        filter (\<lambda>row. rowId row \<notin> \<Union> (set ` set (deletedRows t))) (rows (originalBody t))
      \<and> deletedRowCount t = int (length (rows (originalBody t))) - int (length (rows (body t))))"

section \<open>Parsing and serialising tables (consent form)\<close>

text \<open>
  A JavaScript value as far as the consent form looks at it. \<open>JOther\<close> stands for the
  values of the remaining kinds (numbers, arrays, objects), over a type that the model
  leaves open; \<^verbatim>\<open>String(v)\<close> of such a value is given by the parameter \<open>fmt\<close>.
\<close>

datatype 'o jsval = JUndefined | JNull | JBool bool | JStr string | JOther 'o

fun jsString :: "('o \<Rightarrow> string) \<Rightarrow> 'o jsval \<Rightarrow> string" where
  "jsString fmt JUndefined = ''undefined''"
| "jsString fmt JNull = ''null''"
| "jsString fmt (JBool b) = (if b then ''true'' else ''false'')"
| "jsString fmt (JStr s) = s"
| "jsString fmt (JOther v) = fmt v"

text \<open>
  An object is the list of its own properties in the order in which \<^verbatim>\<open>Object.keys\<close>
  enumerates them: the keys that are array indices in ascending order, then the other
  keys in the order of their creation. \<open>map_of\<close> reads a property. A data frame maps a
  column name to a column, and a column maps a row key to a value.
\<close>

type_synonym 'o column = "(string \<times> 'o jsval) list"

type_synonym 'o dataFrame = "(string \<times> 'o column) list"

text \<open>
  \<^verbatim>\<open>PropsUIPromptConsentFormTable\<close>; its fields \<^verbatim>\<open>id\<close>, \<^verbatim>\<open>title\<close>, \<^verbatim>\<open>description\<close>
  and \<^verbatim>\<open>visualizations\<close> carry the prefix \<open>td\<close>. \<open>'tb\<close> is the type of a text bundle.
\<close>

record 'tb PropsUIPromptConsentFormTable =
  tdId :: string
  tdTitle :: 'tb
  tdDescription :: "'tb option"
  data_frame :: string
  tdVisualizations :: "VisualizationType list option"

text \<open>
  \<^verbatim>\<open>dataFrame[column][`${row}`]\<close>: reading a property of \<^verbatim>\<open>undefined\<close> throws a
  \<^verbatim>\<open>TypeError\<close>; a missing row key gives \<^verbatim>\<open>undefined\<close>.
\<close>

definition rowCell :: "('o \<Rightarrow> string) \<Rightarrow> 'o dataFrame \<Rightarrow> string \<Rightarrow> int \<Rightarrow> exn + string" where
  "rowCell fmt dataFrame column row =
     (case map_of dataFrame column of
        None \<Rightarrow> Inl (Exn TypeError ''Cannot read properties of undefined'')
      | Some col \<Rightarrow>
          Inr (jsString fmt (case map_of col (intString row) of
                               None \<Rightarrow> JUndefined
                             | Some v \<Rightarrow> v)))"

definition columnNames :: "'o dataFrame \<Rightarrow> string list" where
  "columnNames dataFrame = map fst dataFrame"

definition columnCount :: "'o dataFrame \<Rightarrow> int" where
  "columnCount dataFrame = int (length (columnNames dataFrame))"

definition rowCount :: "'o dataFrame \<Rightarrow> exn + int" where
  "rowCount dataFrame =
     (if columnCount dataFrame = 0 then Inr 0
      else
        case map_of dataFrame (columnNames dataFrame ! 0) of
          None \<Rightarrow> Inl (Exn TypeError ''Cannot convert undefined or null to object'')
        | Some firstColumn \<Rightarrow> Inr (int (length (map fst firstColumn)) - 1))"

text \<open>
  The loop of \<^verbatim>\<open>rows\<close>: \<^verbatim>\<open>for (let row = 0; row <= n; row++)\<close>, with the array
  \<^verbatim>\<open>result\<close> as accumulator.
\<close>

function rowsLoop ::
  "('o \<Rightarrow> string) \<Rightarrow> 'o dataFrame \<Rightarrow> int \<Rightarrow> int \<Rightarrow> PropsUITableRow list
     \<Rightarrow> exn + PropsUITableRow list" where
  "rowsLoop fmt data n row result =
     (if row \<le> n then
        (case mapE (\<lambda>column. rowCell fmt data column row) (columnNames data) of
           Inl e \<Rightarrow> Inl e
         | Inr cs \<Rightarrow>
             rowsLoop fmt data n (row + 1) (result @ [\<lparr>rowId = intString row, cells = cs\<rparr>]))
      else Inr result)"
  by pat_completeness auto
termination
  by (relation "measure (\<lambda>(fmt, data, n, row, result). nat (n + 1 - row))") auto

text \<open>The function \<^verbatim>\<open>rows\<close> of the consent form (\<open>rows\<close> is a field of the body here).\<close>

definition frameRows :: "('o \<Rightarrow> string) \<Rightarrow> 'o dataFrame \<Rightarrow> exn + PropsUITableRow list" where
  "frameRows fmt data =
     (case rowCount data of
        Inl e \<Rightarrow> Inl e
      | Inr n \<Rightarrow> rowsLoop fmt data n 0 [])"

text \<open>
  \<^verbatim>\<open>parseTable\<close>. \<^verbatim>\<open>JSON.parse\<close> and \<^verbatim>\<open>Translator.translate\<close> are parameters, and so
  is the locale of the props.
\<close>

definition parseTable ::
  "(string \<Rightarrow> exn + 'o dataFrame) \<Rightarrow> ('o \<Rightarrow> string) \<Rightarrow> ('tb \<Rightarrow> string \<Rightarrow> string) \<Rightarrow> string
     \<Rightarrow> 'tb PropsUIPromptConsentFormTable \<Rightarrow> exn + TableWithContext" where
  "parseTable JSONparse fmt translate locale tableData =
     (let ident = tdId tableData;
          ttl = translate (tdTitle tableData) locale;
          descr = (case tdDescription tableData of
                     Some d \<Rightarrow> translate d locale
                   | None \<Rightarrow> []);
          cnt = 0
      in case JSONparse (data_frame tableData) of
           Inl e \<Rightarrow> Inl e
         | Inr dataFrame \<Rightarrow>
             let hCells = map (\<lambda>column. column) (columnNames dataFrame);
                 hd' = \<lparr>headCells = hCells\<rparr>
             in case frameRows fmt dataFrame of
                  Inl e \<Rightarrow> Inl e
                | Inr rws \<Rightarrow>
                    let bdy = \<lparr>rows = rws\<rparr>
                    in Inr \<lparr>tableId = ident, head = hd', body = bdy, title = ttl,
                            description = descr, deletedRowCount = cnt, annotations = [],
                            originalBody = bdy, deletedRows = [],
                            visualizations = tdVisualizations tableData\<rparr>)"

text \<open>
  Modelled from the spec: the helper \<^verbatim>\<open>assert\<close> of \<^verbatim>\<open>helpers\<close>, which is not among the
  source files. A violated assertion is fatal and stops the caller: it throws, with
  the message it was given.
\<close>

definition assert :: "bool \<Rightarrow> string \<Rightarrow> exn + unit" where
  "assert condition msg = (if condition then Inr () else Inl (Exn AssertionError msg))"

text \<open>
  An array index is the decimal form, without leading zeros, of a number below
  \<open>2^32 - 1\<close>.
\<close>

definition isDigit :: "char \<Rightarrow> bool" where
  "isDigit c = (c \<in> set ''0123456789'')"

definition digitOf :: "char \<Rightarrow> int" where
  "digitOf c =
     (case map_of (zip ''0123456789'' [0, 1, 2, 3, 4, 5, 6, 7, 8, 9]) c of
        Some d \<Rightarrow> d
      | None \<Rightarrow> 0)"

definition digitsValue :: "string \<Rightarrow> int" where
  "digitsValue k = foldl (\<lambda>n c. 10 * n + digitOf c) 0 k"

definition isArrayIndex :: "string \<Rightarrow> bool" where
  "isArrayIndex k =
     (k \<noteq> [] \<and> list_all isDigit k \<and> (k = ''0'' \<or> hd k \<noteq> CHR ''0'')
      \<and> digitsValue k < 4294967295)"

text \<open>
  The assignment \<^verbatim>\<open>result[key] = value\<close> of a string to a property of an object that
  was created as \<^verbatim>\<open>{}\<close>. The key \<^verbatim>\<open>__proto__\<close> is the accessor of \<^verbatim>\<open>Object.prototype\<close>,
  whose setter ignores a value that is neither an object nor null: no property is
  created. An existing property keeps its place and takes the new value. A new
  property whose key is an array index goes in front of the greater indices and of
  all other keys; any other new property goes to the end.
\<close>

fun insertIndexKey :: "string \<Rightarrow> string \<Rightarrow> (string \<times> string) list \<Rightarrow> (string \<times> string) list" where
  "insertIndexKey k v [] = [(k, v)]"
| "insertIndexKey k v (p # ps) =
     (if isArrayIndex (fst p) \<and> digitsValue (fst p) < digitsValue k
      then p # insertIndexKey k v ps
      else (k, v) # p # ps)"

definition setProperty :: "string \<Rightarrow> string \<Rightarrow> (string \<times> string) list \<Rightarrow> (string \<times> string) list" where
  "setProperty k v obj =
     (if k = ''__proto__'' then obj
      else if k \<in> fst ` set obj then AList.update k v obj
      else if isArrayIndex k then insertIndexKey k v obj
      else obj @ [(k, v)])"

text \<open>
  \<^verbatim>\<open>_.fromPairs\<close> of lodash: the pairs are assigned to an empty object one after the
  other (\<^verbatim>\<open>result[pair[0]] = pair[1]\<close>). The values are the strings of the cells.
\<close>

definition fromPairs :: "(string \<times> string) list \<Rightarrow> (string \<times> string) list" where
  "fromPairs pairs = fold (\<lambda>(k, v) obj. setProperty k v obj) pairs []"

text \<open>
  \<^verbatim>\<open>serializeRow\<close>. After the assertion the two arrays have the same length, where
  \<^verbatim>\<open>_.zip\<close> is \<open>zip\<close>.
\<close>

definition serializeRow :: "PropsUITableRow \<Rightarrow> PropsUITableHead \<Rightarrow> exn + (string \<times> string) list" where
  "serializeRow row hd' =
     (case assert (length (cells row) = length (headCells hd'))
             (''Number of cells in row ('' @ natString (length (cells row))
              @ '') should be equals to number of cells in head (''
              @ natString (length (headCells hd')) @ '')'') of
        Inl e \<Rightarrow> Inl e
      | Inr u \<Rightarrow>
          let keys = map (\<lambda>cell. cell) (headCells hd');
              vals = map (\<lambda>cell. cell) (cells row)
          in Inr (fromPairs (zip keys vals)))"

text \<open>
  The elements of the consent payload are objects with one property: the identifier of
  a table with its serialised rows, or \<^verbatim>\<open>user_omissions\<close> with a string.
\<close>

datatype payloadValue = RowsValue "(string \<times> string) list list" | StringValue string

definition serializeTable :: "TableWithContext \<Rightarrow> exn + (string \<times> payloadValue)" where
  "serializeTable t =
     (case mapE (\<lambda>row. serializeRow row (head t)) (rows (body t)) of
        Inl e \<Rightarrow> Inl e
      | Inr dat \<Rightarrow> Inr (tableId t, RowsValue dat))"

definition serializeTables :: "TableWithContext list \<Rightarrow> exn + (string \<times> payloadValue) list" where
  "serializeTables tables = mapE (\<lambda>t. serializeTable t) tables"

definition serializeMetaTables :: "TableWithContext list \<Rightarrow> exn + (string \<times> payloadValue) list" where
  "serializeMetaTables metaTables = mapE (\<lambda>t. serializeTable t) metaTables"

text \<open>\<^verbatim>\<open>JSON.stringify\<close> is a parameter, once for an array of strings and once for the payload.\<close>

definition serializeDeletedMetaData ::
  "(string list \<Rightarrow> string) \<Rightarrow> TableWithContext list \<Rightarrow> string \<times> payloadValue" where
  "serializeDeletedMetaData stringifyStrings tables =
     (let rawData =
            map (\<lambda>t. ''User deleted '' @ intString (deletedRowCount t)
                      @ '' rows from table: '' @ tableId t)
                (filter (\<lambda>t. deletedRowCount t > 0) tables);
          dat = stringifyStrings rawData
      in (''user_omissions'', StringValue dat))"

definition serializeMetaData ::
  "(string list \<Rightarrow> string) \<Rightarrow> TableWithContext list \<Rightarrow> TableWithContext list
     \<Rightarrow> exn + (string \<times> payloadValue) list" where
  "serializeMetaData stringifyStrings tables metaTables =
     (case serializeMetaTables metaTables of
        Inl e \<Rightarrow> Inl e
      | Inr ms \<Rightarrow> Inr (ms @ [serializeDeletedMetaData stringifyStrings tables]))"

definition serializeConsentData ::
  "((string \<times> payloadValue) list \<Rightarrow> string) \<Rightarrow> (string list \<Rightarrow> string)
     \<Rightarrow> TableWithContext list \<Rightarrow> TableWithContext list \<Rightarrow> exn + string" where
  "serializeConsentData stringify stringifyStrings tables metaTables =
     (case serializeTables tables of
        Inl e \<Rightarrow> Inl e
      | Inr ts \<Rightarrow>
          (case serializeMetaData stringifyStrings tables metaTables of
             Inl e \<Rightarrow> Inl e
           | Inr ms \<Rightarrow> Inr (stringify (ts @ ms))))"

section \<open>Visualization data: worker and hook\<close>

text \<open>
  Modelled from the spec: the types \<^verbatim>\<open>VisualizationData\<close>, \<^verbatim>\<open>ChartVisualizationData\<close> and
  \<^verbatim>\<open>TextVisualizationData\<close> of \<^verbatim>\<open>types/visualizations\<close>, which is not among the source
  files. Chart data carries the array \<^verbatim>\<open>data\<close> of records (each a
  \<^verbatim>\<open>Record<string, any>\<close>, with the key \<^verbatim>\<open>__x\<close>) besides further fields \<open>'c\<close>; text data
  \<open>'t\<close> has no array \<^verbatim>\<open>data\<close>.
\<close>

type_synonym 'o item = "(string \<times> 'o jsval) list"

datatype ('o, 'c, 't) VisualizationData =
    ChartVisualizationData "'o item list" 'c
  | TextVisualizationData 't

datatype Status = StatusLoading | StatusSuccess | StatusError

text \<open>The message of the worker to the hook, and the message of the hook to the worker.\<close>

record ('o, 'c, 't) WorkerMessage =
  status :: Status
  visualizationData :: "('o, 'c, 't) VisualizationData option"

record Input =
  inputTable :: "TableWithContext option"
  inputVisualization :: "VisualizationType option"

text \<open>What the worker writes to the console: the level, the text and the logged error.\<close>

datatype logEntry = ConsoleInfo string "exn option" | ConsoleError string exn

definition isInvalidTimeValue :: "exn \<Rightarrow> bool" where
  "isInvalidTimeValue error = (error = Exn RangeError ''Invalid time value'')"

text \<open>
  The \<^verbatim>\<open>try\<close> block of \<^verbatim>\<open>createVisualizationData\<close>. \<^verbatim>\<open>prepareChartData\<close> and
  \<^verbatim>\<open>prepareTextData\<close> are not among the source files: they are parameters, which return
  the data or the exception they throw.
\<close>

definition dispatchVisualization ::
  "(TableWithContext \<Rightarrow> VisualizationType \<Rightarrow> exn + ('o, 'c, 't) VisualizationData)
     \<Rightarrow> (TableWithContext \<Rightarrow> VisualizationType \<Rightarrow> exn + ('o, 'c, 't) VisualizationData)
     \<Rightarrow> TableWithContext option \<Rightarrow> VisualizationType option
     \<Rightarrow> exn + ('o, 'c, 't) VisualizationData" where
  "dispatchVisualization prepareChartData prepareTextData tableArg visualizationArg =
     (case tableArg of
        None \<Rightarrow> Inl (Exn Error ''Table and visualization are required'')
      | Some tbl \<Rightarrow>
          (case visualizationArg of
             None \<Rightarrow> Inl (Exn Error ''Table and visualization are required'')
           | Some visualization \<Rightarrow>
               if visType visualization \<in> set [''line'', ''bar'', ''area'']
               then prepareChartData tbl visualization
               else if visType visualization \<in> set [''wordcloud'']
               then prepareTextData tbl visualization
               else Inl (Exn Error (''Visualization type '' @ visType visualization
                                    @ '' not supported''))))"

text \<open>\<^verbatim>\<open>createVisualizationData\<close>: the \<^verbatim>\<open>catch\<close> block logs the error and throws it again.\<close>

definition createVisualizationData ::
  "(TableWithContext \<Rightarrow> VisualizationType \<Rightarrow> exn + ('o, 'c, 't) VisualizationData)
     \<Rightarrow> (TableWithContext \<Rightarrow> VisualizationType \<Rightarrow> exn + ('o, 'c, 't) VisualizationData)
     \<Rightarrow> TableWithContext option \<Rightarrow> VisualizationType option
     \<Rightarrow> logEntry list \<times> (exn + ('o, 'c, 't) VisualizationData)" where
  "createVisualizationData prepareChartData prepareTextData tableArg visualizationArg =
     (case dispatchVisualization prepareChartData prepareTextData tableArg visualizationArg of
        Inr v \<Rightarrow> ([], Inr v)
      | Inl error \<Rightarrow>
          ([if isInvalidTimeValue error
            then ConsoleInfo ''Info: Invalid time value encountered in createVisualizationData:''
                   (Some error)
            else ConsoleError ''Error in createVisualizationData:'' error],
           Inl error))"

text \<open>\<^verbatim>\<open>self.onmessage\<close> of the worker: the log and the message it posts.\<close>

definition workerOnmessage ::
  "(TableWithContext \<Rightarrow> VisualizationType \<Rightarrow> exn + ('o, 'c, 't) VisualizationData)
     \<Rightarrow> (TableWithContext \<Rightarrow> VisualizationType \<Rightarrow> exn + ('o, 'c, 't) VisualizationData)
     \<Rightarrow> Input \<Rightarrow> logEntry list \<times> ('o, 'c, 't) WorkerMessage" where
  "workerOnmessage prepareChartData prepareTextData e =
     (case createVisualizationData prepareChartData prepareTextData
             (inputTable e) (inputVisualization e) of
        (logs, Inr v) \<Rightarrow> (logs, \<lparr>status = StatusSuccess, visualizationData = Some v\<rparr>)
      | (logs, Inl error) \<Rightarrow>
          (logs @ [if isInvalidTimeValue error
                   then ConsoleInfo [] None
                   else ConsoleError ''Error in visualizationDataWorker:'' error],
           \<lparr>status = StatusError, visualizationData = None\<rparr>))"

text \<open>
  \<^verbatim>\<open>worker.onmessage\<close> of \<^verbatim>\<open>useVisualizationData\<close>: the new values of the two pieces of
  state, \<^verbatim>\<open>visualizationData\<close> and \<^verbatim>\<open>status\<close>. A record without \<^verbatim>\<open>__x\<close> has the value
  \<^verbatim>\<open>undefined\<close> there. (The \<^verbatim>\<open>console.log\<close> of the received message is left out.)
\<close>

definition itemX :: "'o item \<Rightarrow> 'o jsval" where
  "itemX item = (case map_of item ''__x'' of None \<Rightarrow> JUndefined | Some v \<Rightarrow> v)"

definition invalidKeys :: "'o jsval list" where
  "invalidKeys =
     [JNull, JUndefined, JStr ''NaN-QNaN'', JStr ''NaN-Invalid Date'', JStr ''Invalid Date'',
      JStr ''NaN'', JStr ''NaN-Invalid Date-NaN'', JStr ''Invalid Date-NaN-NaN'',
      JStr ''Invalid Date-NaN'']"

definition hookOnmessage ::
  "('o, 'c, 't) WorkerMessage \<Rightarrow> ('o, 'c, 't) VisualizationData option \<times> Status" where
  "hookOnmessage msg =
     (case visualizationData msg of
        None \<Rightarrow> (None, StatusError)
      | Some vd \<Rightarrow>
          if status msg = StatusError then (None, StatusError)
          else
            (case vd of
               ChartVisualizationData dat rest \<Rightarrow>
                 let cleanedData = filter (\<lambda>item. itemX item \<notin> set invalidKeys) dat
                 in if length cleanedData = 0 then (None, StatusSuccess)
                    else (Some (ChartVisualizationData cleanedData rest), StatusSuccess)
             | TextVisualizationData txt \<Rightarrow> (Some vd, StatusSuccess)))"

text \<open>
  The hook posts the table and the visualization to the worker and takes the answer:
  the console of the worker, and what the caller of the hook sees.
\<close>

definition useVisualizationData ::
  "(TableWithContext \<Rightarrow> VisualizationType \<Rightarrow> exn + ('o, 'c, 't) VisualizationData)
     \<Rightarrow> (TableWithContext \<Rightarrow> VisualizationType \<Rightarrow> exn + ('o, 'c, 't) VisualizationData)
     \<Rightarrow> TableWithContext \<Rightarrow> VisualizationType
     \<Rightarrow> logEntry list \<times> (('o, 'c, 't) VisualizationData option \<times> Status)" where
  "useVisualizationData prepareChartData prepareTextData tbl visualization =
     (case workerOnmessage prepareChartData prepareTextData
             \<lparr>inputTable = Some tbl, inputVisualization = Some visualization\<rparr> of
        (logs, msg) \<Rightarrow> (logs, hookOnmessage msg))"

text \<open>
  The table of the end-to-end scenario of the specification, as \<^verbatim>\<open>parseTable\<close> builds it,
  in a container whose search state is the initial one; and a \<^verbatim>\<open>RegExp\<close> constructor
  that rejects every pattern.
\<close>

definition exampleTable :: TableWithContext where
  "exampleTable =
     \<lparr>tableId = ''t'',
      head = \<lparr>headCells = [''Type'', ''Value'']\<rparr>,
      body = \<lparr>rows = [\<lparr>rowId = ''0'', cells = [''TypeA'', ''x'']\<rparr>,
                      \<lparr>rowId = ''1'', cells = [''TypeB'', ''y'']\<rparr>]\<rparr>,
      title = ''Example'',
      description = [],
      deletedRowCount = 0,
      annotations = [],
      originalBody = \<lparr>rows = [\<lparr>rowId = ''0'', cells = [''TypeA'', ''x'']\<rparr>,
                              \<lparr>rowId = ''1'', cells = [''TypeB'', ''y'']\<rparr>]\<rparr>,
      deletedRows = [],
      visualizations = None\<rparr>"

definition exampleContainer :: TableContainer where
  "exampleContainer =
     \<lparr>table = exampleTable, searchFilterIds = None, dataTypeFilter = None, search = []\<rparr>"

definition noRegExp :: RegExpCtor where
  "noRegExp pattern flags = Inl (Exn SyntaxError ''Invalid regular expression'')"

text \<open>
  The words of the round-trip property: the row of a data frame at an index is the
  mapping of each column name to the value of that column at the index
  (\<^verbatim>\<open>undefined\<close> where the column has no such key); \<open>stringRow\<close> replaces each value
  by \<^verbatim>\<open>String(value)\<close>, \<open>asValues\<close> reads a serialised row as a row of string values,
  and \<open>roundTrip\<close> parses a table and serialises it at once, with no redaction between.
\<close>

definition frameValue :: "'o column \<Rightarrow> int \<Rightarrow> 'o jsval" where
  "frameValue col i = (case map_of col (intString i) of None \<Rightarrow> JUndefined | Some v \<Rightarrow> v)"

definition frameRow :: "'o dataFrame \<Rightarrow> int \<Rightarrow> (string \<times> 'o jsval) list" where
  "frameRow df i = map (\<lambda>(c, col). (c, frameValue col i)) df"


definition asValues :: "(string \<times> string) list \<Rightarrow> (string \<times> 'o jsval) list" where
  "asValues r = map (\<lambda>(c, s). (c, JStr s)) r"


definition roundTrip ::
  "(string \<Rightarrow> exn + 'o dataFrame) \<Rightarrow> ('o \<Rightarrow> string) \<Rightarrow> ('tb \<Rightarrow> string \<Rightarrow> string) \<Rightarrow> string
     \<Rightarrow> 'tb PropsUIPromptConsentFormTable \<Rightarrow> exn + (string \<times> payloadValue)" where
  "roundTrip JSONparse fmt translate locale tableData =
     (case parseTable JSONparse fmt translate locale tableData of
        Inl e \<Rightarrow> Inl e
      | Inr t \<Rightarrow> serializeTable t)"

text \<open>Example inputs: tables, data frames and instances of the runtime parameters.\<close>

definition likesTable :: TableWithContext where
  "likesTable =
     \<lparr>tableId = ''t'',
      head = \<lparr>headCells = [''Type'', ''Value'']\<rparr>,
      body = \<lparr>rows = [\<lparr>rowId = ''0'', cells = [''Likes'', ''x'']\<rparr>,
                      \<lparr>rowId = ''1'', cells = [''Shares'', ''y'']\<rparr>]\<rparr>,
      title = ''Example'',
      description = [],
      deletedRowCount = 0,
      annotations = [],
      originalBody = \<lparr>rows = [\<lparr>rowId = ''0'', cells = [''Likes'', ''x'']\<rparr>,
                              \<lparr>rowId = ''1'', cells = [''Shares'', ''y'']\<rparr>]\<rparr>,
      deletedRows = [],
      visualizations = None\<rparr>"

definition mismatchedTable :: TableWithContext where
  "mismatchedTable = exampleTable\<lparr>head := \<lparr>headCells = [''Type'']\<rparr>\<rparr>"

definition likesFrame :: "unit dataFrame" where
  "likesFrame =
     [(''Type'', [(''0'', JStr ''Likes''), (''1'', JStr ''Shares'')]),
      (''Value'', [(''0'', JStr ''x''), (''1'', JStr ''y'')])]"

definition nullFrame :: "unit dataFrame" where
  "nullFrame = [(''a'', [(''0'', JNull)])]"

definition protoFrame :: "unit dataFrame" where
  "protoFrame = [(''__proto__'', [(''0'', JStr ''x'')]), (''b'', [(''0'', JNull)])]"

definition exampleJSONparse :: "string \<Rightarrow> exn + unit dataFrame" where
  \<open>exampleJSONparse text =
     (if text = ''{"Type":{"0":"Likes","1":"Shares"},"Value":{"0":"x","1":"y"}}'' then Inr likesFrame
      else if text = ''{"a":{"0":null}}'' then Inr nullFrame
      else if text = ''{"__proto__":{"0":"x"},"b":{"0":null}}'' then Inr protoFrame
      else Inl (Exn SyntaxError ''Unexpected token''))\<close>

definition exampleFmt :: "unit \<Rightarrow> string" where
  "exampleFmt u = ''[object Object]''"

definition exampleTranslate :: "string \<Rightarrow> string \<Rightarrow> string" where
  "exampleTranslate bundle locale = bundle"

definition likesTableData :: "string PropsUIPromptConsentFormTable" where
  \<open>likesTableData =
     \<lparr>tdId = ''t'', tdTitle = ''Example'', tdDescription = None,
      data_frame = ''{"Type":{"0":"Likes","1":"Shares"},"Value":{"0":"x","1":"y"}}'',
      tdVisualizations = None\<rparr>\<close>

definition nullTableData :: "string PropsUIPromptConsentFormTable" where
  \<open>nullTableData =
     \<lparr>tdId = ''t'', tdTitle = ''Example'', tdDescription = None,
      data_frame = ''{"a":{"0":null}}'',
      tdVisualizations = None\<rparr>\<close>


text \<open>
  Example preparation functions: one throws the \<^verbatim>\<open>RangeError\<close> of an invalid date, one
  returns a single chart record whose key is that of an unparseable date, one throws
  another error; and two visualization descriptors.
\<close>

definition invalidTimePrepare ::
  "TableWithContext \<Rightarrow> VisualizationType \<Rightarrow> exn + (unit, unit, unit) VisualizationData" where
  "invalidTimePrepare tbl visualization = Inl (Exn RangeError ''Invalid time value'')"

definition invalidKeyPrepare ::
  "TableWithContext \<Rightarrow> VisualizationType \<Rightarrow> exn + (unit, unit, unit) VisualizationData" where
  "invalidKeyPrepare tbl visualization =
     Inr (ChartVisualizationData [[(''__x'', JStr ''Invalid Date''), (''y'', JStr ''1'')]] ())"

definition failingPrepare ::
  "TableWithContext \<Rightarrow> VisualizationType \<Rightarrow> exn + (unit, unit, unit) VisualizationData" where
  "failingPrepare tbl visualization = Inl (Exn TypeError ''Cannot read properties of undefined'')"

definition lineChart :: VisualizationType where
  "lineChart = \<lparr>visType = ''line''\<rparr>"

definition pieChart :: VisualizationType where
  "pieChart = \<lparr>visType = ''pie''\<rparr>"

text \<open>
  A container on the same table with a search in progress, and instances of
  \<^verbatim>\<open>JSON.stringify\<close> for the examples.
\<close>

definition searchingContainer :: TableContainer where
  "searchingContainer =
     \<lparr>table = exampleTable, searchFilterIds = Some {''1''}, dataTypeFilter = None, search = ''y''\<rparr>"

definition exampleStringify :: "(string \<times> payloadValue) list \<Rightarrow> string" where
  "exampleStringify payload = concat (map fst payload)"

definition exampleStringifyStrings :: "string list \<Rightarrow> string" where
  "exampleStringifyStrings strings = concat strings"

section \<open>Properties of the ledger\<close>

lemma fold_insert_set: "fold (\<lambda>i ids'. insert i ids') xs A = set xs \<union> A"
  by (induction xs arbitrary: A) auto

lemma deleteIds_fold:
  "fold (\<lambda>deletedSet ids. fold (\<lambda>i ids'. insert i ids') deletedSet ids) bs A
     = \<Union> (set ` set bs) \<union> A"
  by (induction bs arbitrary: A) (auto simp: fold_insert_set)

lemma deleteIdsOf_Union: "deleteIdsOf bs = \<Union> (set ` set bs)"
  by (simp add: deleteIdsOf_def deleteIds_fold)

lemma deleteTableRows_invariant: "ledgerInvariant (deleteTableRows t bs)"
  by (simp add: ledgerInvariant_def deleteTableRows_def Let_def deleteIdsOf_Union)

lemma handleDelete_invariant:
  "ledgerInvariant (table c) \<Longrightarrow> ledgerInvariant (table (handleDelete c r))"
  by (simp add: handleDelete_def Let_def deleteTableRows_invariant)

lemma handleUndo_invariant: "ledgerInvariant (table (handleUndo c))"
  by (simp add: handleUndo_def Let_def deleteTableRows_invariant)

lemma step_invariant:
  "ledgerInvariant (table c) \<Longrightarrow> ledgerInvariant (table (step RegExp c ev))"
  by (cases ev) (auto simp: handleDelete_invariant handleUndo_invariant split: sum.splits)

lemma run_invariant:
  "ledgerInvariant (table c) \<Longrightarrow> ledgerInvariant (table (run RegExp c evs))"
  by (induction evs arbitrary: c) (simp_all add: step_invariant)

lemma parseTable_invariant:
  "parseTable JSONparse fmt translate loc td = Inr t \<Longrightarrow> ledgerInvariant t"
  by (auto simp: parseTable_def Let_def ledgerInvariant_def split: sum.splits)

lemma parse_likesTableData:
  "parseTable exampleJSONparse exampleFmt exampleTranslate ''en'' likesTableData = Inr likesTable"
  by code_simp

lemma exampleTable_invariant: "ledgerInvariant exampleTable"
  by (simp add: ledgerInvariant_def exampleTable_def)

lemma deleteTableRows_same:
  "ledgerInvariant t \<Longrightarrow> deleteTableRows t (deletedRows t) = t"
  by (simp add: ledgerInvariant_def deleteTableRows_def Let_def deleteIdsOf_Union)

lemma deleteTableRows_twice [simp]:
  "deleteTableRows (deleteTableRows t bs) bs' = deleteTableRows t bs'"
  by (simp add: deleteTableRows_def Let_def)

lemma deletedRows_deleteTableRows [simp]: "deletedRows (deleteTableRows t bs) = bs"
  by (simp add: deleteTableRows_def Let_def)

lemma body_deleteTableRows:
  "rows (body (deleteTableRows t bs)) =
     filter (\<lambda>row. rowId row \<notin> \<Union> (set ` set bs)) (rows (originalBody t))"
  by (simp add: deleteTableRows_def Let_def deleteIdsOf_Union)

lemma count_deleteTableRows:
  "deletedRowCount (deleteTableRows t bs) =
     int (length (filter (\<lambda>row. rowId row \<in> \<Union> (set ` set bs)) (rows (originalBody t))))"
proof -
  have "length (rows (originalBody t)) =
          length (filter (\<lambda>row. rowId row \<in> \<Union> (set ` set bs)) (rows (originalBody t)))
        + length (filter (\<lambda>row. rowId row \<notin> \<Union> (set ` set bs)) (rows (originalBody t)))"
    using sum_length_filter_compl [of "\<lambda>row. rowId row \<in> \<Union> (set ` set bs)" "rows (originalBody t)"]
    by simp
  then show ?thesis
    by (simp add: deleteTableRows_def Let_def deleteIdsOf_Union)
qed

lemma originalBody_deleteTableRows [simp]:
  "originalBody (deleteTableRows t bs) = originalBody t"
  by (simp add: deleteTableRows_def Let_def)

lemma table_handleDelete_Some:
  "ids \<noteq> [] \<Longrightarrow>
     table (handleDelete c (Some ids)) = deleteTableRows (table c) (deletedRows (table c) @ [ids])"
  by (simp add: handleDelete_def Let_def)

lemma length_filter_one:
  "distinct (map f xs) \<Longrightarrow> x \<in> set xs \<Longrightarrow> length (filter (\<lambda>y. f y = f x) xs) = 1"
proof (induction xs)
  case Nil
  then show ?case by simp
next
  case (Cons a xs)
  show ?case
  proof (cases "a = x")
    case True
    from Cons.prems True have "f x \<notin> f ` set xs" by simp
    then have "\<forall>y\<in>set xs. f y \<noteq> f x" by (metis imageI)
    then have "filter (\<lambda>y. f y = f x) xs = []"
      by (simp add: filter_empty_conv)
    with True show ?thesis by simp
  next
    case False
    with Cons.prems have "x \<in> set xs" "f a \<noteq> f x" by auto
    with Cons show ?thesis by simp
  qed
qed

text \<open>
  C1. Every table that \<^verbatim>\<open>parseTable\<close> returns and every table that \<^verbatim>\<open>deleteTableRows\<close>
  returns satisfies the invariant of the data model, and from a table that satisfies it, after each event of every sequence of container
  events (deletions, undos, search events) the table satisfies it: the body is the
  original body without the rows whose identifier occurs in some batch of
  \<^verbatim>\<open>deletedRows\<close>, in the original order, and \<^verbatim>\<open>deletedRowCount\<close> is the difference of
  the lengths of the original body and the body.
\<close>

theorem ledger_invariant_after_each_operation:
  "(parseTable JSONparse fmt translate loc td = Inr t \<longrightarrow> ledgerInvariant t)
   \<and> (ledgerInvariant (table c) \<longrightarrow> ledgerInvariant (table (run RegExp c (take n evs))))
   \<and> ledgerInvariant (deleteTableRows u bs)"
  using parseTable_invariant [of JSONparse fmt translate loc td t] run_invariant [of c RegExp "take n evs"]
    deleteTableRows_invariant [of u bs]
  by blast

theorem ledger_invariant_after_each_operation_witness:
  "parseTable exampleJSONparse exampleFmt exampleTranslate ''en'' likesTableData = Inr likesTable
   \<and> ledgerInvariant likesTable
   \<and> ledgerInvariant (table exampleContainer)
   \<and> ledgerInvariant (table (run noRegExp exampleContainer (take 1 [Delete (Some [''0'']), Undo])))"
  using ledger_invariant_after_each_operation [of exampleJSONparse exampleFmt exampleTranslate "''en''" likesTableData likesTable
      exampleContainer noRegExp 1 "[Delete (Some [''0'']), Undo]"]
    parse_likesTableData
  by (simp add: exampleContainer_def exampleTable_invariant)

text \<open>
  C2. On a table that satisfies the invariant, appending a batch (any batch) to the
  ledger and recomputing with \<^verbatim>\<open>deleteTableRows\<close>, and then undoing at once, gives back
  the table, hence its rows in the same order. \<^verbatim>\<open>handleDelete\<close> appends the batch when
  it is not empty (a non-empty list of identifiers, or all rows of a non-empty
  searched table), and then \<^verbatim>\<open>handleUndo\<close> gives back the table. \<^verbatim>\<open>handleUndo\<close> on an
  empty ledger changes nothing.
\<close>

theorem delete_then_undo_restores:
  assumes "ledgerInvariant (table c)"
  shows "table (handleUndo (c\<lparr>table := deleteTableRows (table c) (deletedRows (table c) @ [batch])\<rparr>))
           = table c
       \<and> (rowIds \<noteq> [] \<longrightarrow> table (handleUndo (handleDelete c (Some rowIds))) = table c)
       \<and> (rows (body (searchedTable c)) \<noteq> [] \<longrightarrow> table (handleUndo (handleDelete c None)) = table c)
       \<and> (deletedRows (table c) = [] \<longrightarrow> handleUndo c = c)"
  using assms deleteTableRows_same [of "table c"]
  by (auto simp: handleUndo_def handleDelete_def Let_def)

theorem delete_then_undo_restores_witness:
  "ledgerInvariant (table exampleContainer) \<and> [''0''] \<noteq> []
   \<and> rows (body (searchedTable exampleContainer)) \<noteq> []
   \<and> deletedRows (table exampleContainer) = []
   \<and> table (handleUndo (handleDelete exampleContainer (Some [''0'']))) = table exampleContainer
   \<and> table (handleUndo (handleDelete exampleContainer None)) = table exampleContainer
   \<and> handleUndo exampleContainer = exampleContainer"
  using delete_then_undo_restores [of exampleContainer "[''0'']"] exampleTable_invariant
  by (simp add: exampleContainer_def searchedTable_def exampleTable_def)

text \<open>
  C3. Deleting a row identifier twice, in one batch or in two batches, leaves the same
  body and the same count as deleting it once; the count is the number of original
  rows whose identifier lies in the union of the batches; and where the identifiers of
  the original rows are distinct and the row is visible, exactly that row leaves the
  body and the count grows by exactly one.
\<close>

theorem deletion_idempotent:
  "rows (body (table (handleDelete c (Some [x, x])))) = rows (body (table (handleDelete c (Some [x]))))
   \<and> deletedRowCount (table (handleDelete c (Some [x, x]))) = deletedRowCount (table (handleDelete c (Some [x])))
   \<and> rows (body (table (handleDelete (handleDelete c (Some [x])) (Some [x]))))
        = rows (body (table (handleDelete c (Some [x]))))
   \<and> deletedRowCount (table (handleDelete (handleDelete c (Some [x])) (Some [x])))
        = deletedRowCount (table (handleDelete c (Some [x])))
   \<and> deletedRowCount (table (handleDelete c (Some [x]))) =
        int (length (filter (\<lambda>row. rowId row \<in> \<Union> (set ` set (deletedRows (table c))) \<union> {x})
                            (rows (originalBody (table c)))))
   \<and> (ledgerInvariant (table c) \<and> distinct (map rowId (rows (originalBody (table c))))
        \<and> x \<in> rowId ` set (rows (body (table c)))
      \<longrightarrow> rows (body (table (handleDelete (handleDelete c (Some [x])) (Some [x]))))
            = filter (\<lambda>row. rowId row \<noteq> x) (rows (body (table c)))
        \<and> length (rows (body (table (handleDelete (handleDelete c (Some [x])) (Some [x])))))
            = length (rows (body (table c))) - 1
        \<and> deletedRowCount (table (handleDelete (handleDelete c (Some [x])) (Some [x])))
            = deletedRowCount (table c) + 1
        \<and> deletedRowCount (table (handleDelete c (Some [x, x]))) = deletedRowCount (table c) + 1)"
proof -
  let ?t = "table c"
  let ?U = "\<Union> (set ` set (deletedRows ?t))"
  let ?orig = "rows (originalBody ?t)"
  have one: "table (handleDelete c (Some [x])) = deleteTableRows ?t (deletedRows ?t @ [[x]])"
    by (simp add: table_handleDelete_Some)
  have dup: "table (handleDelete c (Some [x, x])) = deleteTableRows ?t (deletedRows ?t @ [[x, x]])"
    by (simp add: table_handleDelete_Some)
  have two: "table (handleDelete (handleDelete c (Some [x])) (Some [x]))
               = deleteTableRows ?t (deletedRows ?t @ [[x], [x]])"
    by (simp add: table_handleDelete_Some one)
  have body1: "rows (body (deleteTableRows ?t (deletedRows ?t @ [[x]])))
                 = filter (\<lambda>row. rowId row \<notin> ?U \<union> {x}) ?orig"
    by (simp add: body_deleteTableRows)
  have body_dup: "rows (body (deleteTableRows ?t (deletedRows ?t @ [[x, x]])))
                 = filter (\<lambda>row. rowId row \<notin> ?U \<union> {x}) ?orig"
    by (simp add: body_deleteTableRows)
  have body2: "rows (body (deleteTableRows ?t (deletedRows ?t @ [[x], [x]])))
                 = filter (\<lambda>row. rowId row \<notin> ?U \<union> {x}) ?orig"
    by (simp add: body_deleteTableRows)
  have cnt1: "deletedRowCount (deleteTableRows ?t (deletedRows ?t @ [[x]]))
                 = int (length (filter (\<lambda>row. rowId row \<in> ?U \<union> {x}) ?orig))"
    by (simp add: count_deleteTableRows)
  have cnt_dup: "deletedRowCount (deleteTableRows ?t (deletedRows ?t @ [[x, x]]))
                 = int (length (filter (\<lambda>row. rowId row \<in> ?U \<union> {x}) ?orig))"
    by (simp add: count_deleteTableRows)
  have cnt2: "deletedRowCount (deleteTableRows ?t (deletedRows ?t @ [[x], [x]]))
                 = int (length (filter (\<lambda>row. rowId row \<in> ?U \<union> {x}) ?orig))"
    by (simp add: count_deleteTableRows)
  have once: "rows (body (deleteTableRows ?t (deletedRows ?t @ [[x], [x]])))
                = filter (\<lambda>row. rowId row \<noteq> x) (rows (body ?t))
              \<and> length (rows (body (deleteTableRows ?t (deletedRows ?t @ [[x], [x]]))))
                = length (rows (body ?t)) - 1
              \<and> deletedRowCount (deleteTableRows ?t (deletedRows ?t @ [[x], [x]]))
                = deletedRowCount ?t + 1
              \<and> deletedRowCount (deleteTableRows ?t (deletedRows ?t @ [[x, x]]))
                = deletedRowCount ?t + 1"
    if inv: "ledgerInvariant ?t" and dist: "distinct (map rowId ?orig)"
      and vis: "x \<in> rowId ` set (rows (body ?t))"
  proof -
    let ?b = "rows (body ?t)"
    from inv have b: "?b = filter (\<lambda>row. rowId row \<notin> ?U) ?orig"
      and c: "deletedRowCount ?t = int (length ?orig) - int (length ?b)"
      by (simp_all add: ledgerInvariant_def)
    have nb: "filter (\<lambda>row. rowId row \<notin> ?U \<union> {x}) ?orig = filter (\<lambda>row. rowId row \<noteq> x) ?b"
      by (subst b) (auto intro: filter_cong)
    from dist have distb: "distinct (map rowId ?b)"
      by (subst b) (simp add: distinct_map_filter)
    from vis obtain r where r: "r \<in> set ?b" "rowId r = x" by auto
    have "length (filter (\<lambda>y. rowId y = rowId r) ?b) = 1"
      using distb r(1) by (rule length_filter_one)
    with r(2) have eq1: "length (filter (\<lambda>row. rowId row = x) ?b) = 1" by simp
    have "length ?b = length (filter (\<lambda>row. rowId row = x) ?b)
                    + length (filter (\<lambda>row. \<not> rowId row = x) ?b)"
      using sum_length_filter_compl [of "\<lambda>row. rowId row = x" ?b] by simp
    with eq1 have len: "length (filter (\<lambda>row. rowId row \<noteq> x) ?b) = length ?b - 1"
      and pos: "length ?b \<ge> 1" by simp_all
    have le: "length ?b \<le> length ?orig"
      by (subst b) simp
    have cnt: "int (length (filter (\<lambda>row. rowId row \<in> ?U \<union> {x}) ?orig)) = deletedRowCount ?t + 1"
    proof -
      have "length ?orig = length (filter (\<lambda>row. rowId row \<in> ?U \<union> {x}) ?orig)
                + length (filter (\<lambda>row. \<not> rowId row \<in> ?U \<union> {x}) ?orig)"
        using sum_length_filter_compl [of "\<lambda>row. rowId row \<in> ?U \<union> {x}" ?orig] by simp
      with nb len have "length ?orig = length (filter (\<lambda>row. rowId row \<in> ?U \<union> {x}) ?orig)
                + (length ?b - 1)" by simp
      with pos le c show ?thesis by linarith
    qed
    show ?thesis
      using nb len cnt by (simp only: body2 cnt2 cnt_dup) (simp_all)?
  qed
  show ?thesis
    using once by (simp only: one dup two body1 body_dup body2 cnt1 cnt_dup cnt2) blast
qed

theorem deletion_idempotent_witness:
  "ledgerInvariant (table exampleContainer)
   \<and> distinct (map rowId (rows (originalBody (table exampleContainer))))
   \<and> ''0'' \<in> rowId ` set (rows (body (table exampleContainer)))
   \<and> rows (body (table (handleDelete (handleDelete exampleContainer (Some [''0''])) (Some [''0'']))))
        = filter (\<lambda>row. rowId row \<noteq> ''0'') (rows (body (table exampleContainer)))
   \<and> deletedRowCount (table (handleDelete (handleDelete exampleContainer (Some [''0''])) (Some [''0''])))
        = deletedRowCount (table exampleContainer) + 1
   \<and> deletedRowCount (table (handleDelete exampleContainer (Some [''0'', ''0''])))
        = deletedRowCount (table exampleContainer) + 1"
  using deletion_idempotent [of exampleContainer "''0''"] exampleTable_invariant
  by (simp add: exampleContainer_def exampleTable_def handleDelete_def searchedTable_def
      deleteTableRows_def deleteIdsOf_def Let_def)

section \<open>Properties of the row search\<close>

lemma trim_empty_iff: "trim s = [] \<longleftrightarrow> (\<forall>c\<in>set s. isWhiteSpace c)"
proof
  assume "trim s = []"
  then have all: "\<forall>c\<in>set (dropWhile isWhiteSpace s). isWhiteSpace c"
    by (simp add: trim_def)
  have "dropWhile isWhiteSpace s = []"
  proof (rule ccontr)
    assume ne: "dropWhile isWhiteSpace s \<noteq> []"
    then have "\<not> isWhiteSpace (hd (dropWhile isWhiteSpace s))" by (rule hd_dropWhile)
    moreover from ne have "hd (dropWhile isWhiteSpace s) \<in> set (dropWhile isWhiteSpace s)"
      by (rule hd_in_set)
    ultimately show False using all by blast
  qed
  then show "\<forall>c\<in>set s. isWhiteSpace c" by simp
next
  assume "\<forall>c\<in>set s. isWhiteSpace c"
  then have dw: "dropWhile isWhiteSpace s = []" by simp
  show "trim s = []" unfolding trim_def dw by simp
qed

text \<open>
  C5. For every row list and every \<^verbatim>\<open>RegExp\<close> constructor, \<^verbatim>\<open>searchRows\<close> returns
  \<^verbatim>\<open>undefined\<close> if and only if the trimmed query is empty and the type filter is null;
  in particular for a query of white space only (such as the empty query and the query
  of two spaces) with a null filter.
\<close>

theorem searchRows_sentinel_iff:
  "(searchRows RegExp rws srch dtf = Inr None \<longleftrightarrow> trim srch = [] \<and> dtf = None)
   \<and> ((\<forall>c\<in>set srch. isWhiteSpace c) \<longrightarrow> searchRows RegExp rws srch None = Inr None)
   \<and> searchRows RegExp rws [] None = Inr None
   \<and> searchRows RegExp rws ''  '' None = Inr None"
proof -
  have iff: "searchRows RegExp rws srch dtf = Inr None \<longleftrightarrow> trim srch = [] \<and> dtf = None"
    for srch dtf
    by (simp add: searchRows_def Let_def split: sum.splits)
  have ws: "trim ''  '' = []"
    by (simp add: trim_empty_iff isWhiteSpace_def)
  show ?thesis
    using ws by (simp add: iff trim_empty_iff)
qed

theorem searchRows_sentinel_iff_witness:
  "list_all isWhiteSpace [CHR 0x09, CHR '' '']
   \<and> searchRows noRegExp (rows (body exampleTable)) [CHR 0x09, CHR '' ''] None = Inr None"
  using searchRows_sentinel_iff [of noRegExp "rows (body exampleTable)" "[CHR 0x09, CHR '' '']" None]
  by (simp add: isWhiteSpace_def)

lemma isSpecial_iff: "isSpecial c \<longleftrightarrow> isSyntaxCharacter c \<or> c = CHR ''-'' \<or> c = CHR ''/''"
  by (auto simp: isSpecial_def isSyntaxCharacter_def)

lemma special_backslash: "isSpecial (CHR 0x5C)" and special_dot: "isSpecial CHR ''.''"
  by (simp_all add: isSpecial_def)

lemma parsePattern_plain:
  "filter isSpecial q = [] \<Longrightarrow> parsePattern q = Some (map Lit q)"
proof (induction q)
  case Nil
  then show ?case by simp
next
  case (Cons c cs)
  then have c: "\<not> isSpecial c" and cs: "filter isSpecial cs = []"
    by (auto split: if_splits)
  from c have "c \<noteq> CHR 0x5C" "c \<noteq> CHR ''.''" "\<not> isSyntaxCharacter c"
    using special_backslash special_dot isSpecial_iff by auto
  with Cons.IH [OF cs] show ?case by simp
qed

lemma parsePattern_escapeFirst:
  "length (filter isSpecial q) \<le> 1 \<Longrightarrow> parsePattern (escapeFirst q) = Some (map Lit q)"
proof (induction q)
  case Nil
  then show ?case by simp
next
  case (Cons c cs)
  show ?case
  proof (cases "isSpecial c")
    case True
    with Cons.prems have "filter isSpecial cs = []" by simp
    then have "parsePattern cs = Some (map Lit cs)" by (rule parsePattern_plain)
    with True show ?thesis by (simp add: isSpecial_iff)
  next
    case False
    then have "c \<noteq> CHR 0x5C" "c \<noteq> CHR ''.''" "\<not> isSyntaxCharacter c"
      using special_backslash special_dot isSpecial_iff by auto
    moreover from False Cons.prems have "length (filter isSpecial cs) \<le> 1" by simp
    ultimately show ?thesis using False Cons.IH by simp
  qed
qed

lemma matchAtoms_Lit: "matchAtoms canonicalize (map Lit q) s = prefixCI q s"
  by (induction q s rule: prefixCI.induct) simp_all

lemma testAtoms_Lit: "testAtoms canonicalize (map Lit q) cell = containsCI cell q"
  by (induction cell) (simp_all add: matchAtoms_Lit)

lemma cellLoop_iff: "cellLoop regex cs m \<longleftrightarrow> m \<or> (\<exists>cell\<in>set cs. regex cell)"
  by (induction cs) auto

lemma fold_insert_matching:
  "fold (\<lambda>row ids. if P row then insert (f row) ids else ids) rws A
     = A \<union> {f r | r. r \<in> set rws \<and> P r}"
  by (induction rws arbitrary: A) auto

text \<open>
  Where the trimmed query has at most one special character, the escaping is complete:
  on the fragment, \<^verbatim>\<open>searchRows\<close> returns the identifiers of exactly the rows of which
  some cell contains the query (or the query is empty) and whose first cell is the
  type filter (or the filter is null).
\<close>

lemma searchRows_literal:
  assumes "length (filter isSpecial (trim srch)) \<le> 1"
    and "trim srch \<noteq> [] \<or> dtf \<noteq> None"
  shows "searchRows fragmentRegExp rws srch dtf =
           Inr (Some {rowId r | r. r \<in> set rws
                  \<and> (trim srch = [] \<or> (\<exists>cell\<in>set (cells r). containsCI cell (trim srch)))
                  \<and> (dtf = None \<or> (cells r \<noteq> [] \<and> Some (hd (cells r)) = dtf))})"
proof -
  have re: "fragmentRegExp (escapeFirst (trim srch)) ''i''
              = Inr (testAtoms canonicalize (map Lit (trim srch)))"
    using parsePattern_escapeFirst [OF assms(1)] by (simp add: fragmentRegExp_def)
  have rm: "rowMatches [testAtoms canonicalize (map Lit (trim srch))] srch dtf r
              \<longleftrightarrow> (trim srch = [] \<or> (\<exists>cell\<in>set (cells r). containsCI cell (trim srch)))
                \<and> (dtf = None \<or> (cells r \<noteq> [] \<and> Some (hd (cells r)) = dtf))" for r
    by (cases "cells r")
      (auto simp: rowMatches_def Let_def cellLoop_iff testAtoms_Lit dataTypeIndexOf_def)
  show ?thesis
    using assms(2) by (simp add: searchRows_def re fold_insert_matching rm)
qed

text \<open>
  C4, at the query \<^verbatim>\<open>a.b.c\<close>: only the first dot is escaped, so the pattern handed to
  \<^verbatim>\<open>RegExp\<close> is \<^verbatim>\<open>a\.b.c\<close>, whose second dot is a wildcard; the row with the cell
  \<^verbatim>\<open>a.bxc\<close> is returned although the cell does not contain the query.
\<close>

theorem searchRows_escapes_first_special_character_only:
  "escapeFirst ''a.b.c'' = [CHR ''a'', CHR 0x5C, CHR ''.'', CHR ''b'', CHR ''.'', CHR ''c'']
   \<and> searchRows fragmentRegExp [\<lparr>rowId = ''0'', cells = [''a.bxc'']\<rparr>] ''a.b.c'' None
       = Inr (Some {''0''})
   \<and> \<not> containsCI ''a.bxc'' ''a.b.c''"
  by code_simp

section \<open>Properties of parsing and serialising\<close>

lemma mapE_Inr:
  "(\<And>x. x \<in> set xs \<Longrightarrow> f x = Inr (g x)) \<Longrightarrow> mapE f xs = Inr (map g xs)"
  by (induction xs) simp_all

lemma mapE_Inl:
  "x \<in> set xs \<Longrightarrow> f x = Inl e \<Longrightarrow> \<exists>e' x'. x' \<in> set xs \<and> f x' = Inl e' \<and> mapE f xs = Inl e'"
proof (induction xs)
  case Nil
  then show ?case by simp
next
  case (Cons a xs)
  show ?case
  proof (cases "f a")
    case (Inl e1)
    then show ?thesis by auto
  next
    case (Inr y)
    with Cons.prems have "x \<in> set xs" by auto
    from Cons.IH [OF this Cons.prems(2)] obtain e' x'
      where "x' \<in> set xs" "f x' = Inl e'" "mapE f xs = Inl e'" by blast
    with Inr show ?thesis by auto
  qed
qed

lemma serializeRow_eq:
  "serializeRow row h =
     (if length (cells row) = length (headCells h)
      then Inr (fromPairs (zip (headCells h) (cells row)))
      else Inl (Exn AssertionError
             (''Number of cells in row ('' @ natString (length (cells row))
              @ '') should be equals to number of cells in head (''
              @ natString (length (headCells h)) @ '')'')))"
  by (simp add: serializeRow_def assert_def)













text \<open>
  C9. A row is serialised only if it has as many cells as the head: then the result
  pairs the head cells with the cells of the row; otherwise \<^verbatim>\<open>serializeRow\<close> fails on
  its assertion. A table with a row of another width is not serialised at all, the
  assertion failure ends \<^verbatim>\<open>serializeTable\<close>; and where all rows have the width of the
  head, \<^verbatim>\<open>serializeTable\<close> returns the record of every row.
\<close>

theorem serializeRow_asserts_head_width:
  "(length (cells row) = length (headCells h)
      \<longrightarrow> serializeRow row h = Inr (fromPairs (zip (headCells h) (cells row))))
   \<and> (length (cells row) \<noteq> length (headCells h)
      \<longrightarrow> (\<exists>msg. serializeRow row h = Inl (Exn AssertionError msg)))
   \<and> ((\<exists>r\<in>set (rows (body t)). length (cells r) \<noteq> length (headCells (head t)))
      \<longrightarrow> (\<exists>msg. serializeTable t = Inl (Exn AssertionError msg)))
   \<and> ((\<forall>r\<in>set (rows (body t)). length (cells r) = length (headCells (head t)))
      \<longrightarrow> serializeTable t =
            Inr (tableId t,
                 RowsValue (map (\<lambda>r. fromPairs (zip (headCells (head t)) (cells r)))
                                (rows (body t)))))"
proof (intro conjI impI)
  assume "\<exists>r\<in>set (rows (body t)). length (cells r) \<noteq> length (headCells (head t))"
  then obtain r where r: "r \<in> set (rows (body t))"
    and ne: "length (cells r) \<noteq> length (headCells (head t))" by blast
  from ne obtain msg where "serializeRow r (head t) = Inl (Exn AssertionError msg)"
    by (simp add: serializeRow_eq)
  from mapE_Inl [of r "rows (body t)" "\<lambda>row. serializeRow row (head t)", OF r this] obtain e' r'
    where r': "serializeRow r' (head t) = Inl e'"
      and m: "mapE (\<lambda>row. serializeRow row (head t)) (rows (body t)) = Inl e'" by blast
  from r' obtain msg' where "e' = Exn AssertionError msg'"
    by (auto simp: serializeRow_eq split: if_splits)
  with m show "\<exists>msg. serializeTable t = Inl (Exn AssertionError msg)"
    by (simp add: serializeTable_def)
next
  assume all: "\<forall>r\<in>set (rows (body t)). length (cells r) = length (headCells (head t))"
  have "mapE (\<lambda>row. serializeRow row (head t)) (rows (body t))
          = Inr (map (\<lambda>r. fromPairs (zip (headCells (head t)) (cells r))) (rows (body t)))"
    by (rule mapE_Inr) (simp add: serializeRow_eq all)
  then show "serializeTable t =
            Inr (tableId t,
                 RowsValue (map (\<lambda>r. fromPairs (zip (headCells (head t)) (cells r)))
                                (rows (body t))))"
    by (simp add: serializeTable_def)
qed (simp_all add: serializeRow_eq)

theorem serializeRow_asserts_head_width_witness:
  "length (cells \<lparr>rowId = ''0'', cells = [''TypeA'', ''x'']\<rparr>) = length (headCells \<lparr>headCells = [''Type'', ''Value'']\<rparr>)
   \<and> serializeRow \<lparr>rowId = ''0'', cells = [''TypeA'', ''x'']\<rparr> \<lparr>headCells = [''Type'', ''Value'']\<rparr>
        = Inr [(''Type'', ''TypeA''), (''Value'', ''x'')]
   \<and> list_all (\<lambda>r. length (cells r) = length (headCells (head exampleTable)))
        (rows (body exampleTable))
   \<and> serializeTable exampleTable =
        Inr (''t'', RowsValue [[(''Type'', ''TypeA''), (''Value'', ''x'')],
                               [(''Type'', ''TypeB''), (''Value'', ''y'')]])
   \<and> length (cells \<lparr>rowId = ''0'', cells = [''TypeA'', ''x'']\<rparr>) \<noteq> length (headCells \<lparr>headCells = [''Type'']\<rparr>)
   \<and> (\<exists>msg. serializeRow \<lparr>rowId = ''0'', cells = [''TypeA'', ''x'']\<rparr> \<lparr>headCells = [''Type'']\<rparr>
        = Inl (Exn AssertionError msg))
   \<and> (\<exists>r\<in>set (rows (body mismatchedTable)). length (cells r) \<noteq> length (headCells (head mismatchedTable)))
   \<and> (\<exists>msg. serializeTable mismatchedTable = Inl (Exn AssertionError msg))"
proof -
  have rowA: "fromPairs [(''Type'', ''TypeA''), (''Value'', ''x'')]
                = [(''Type'', ''TypeA''), (''Value'', ''x'')]"
    by code_simp
  have rowB: "fromPairs [(''Type'', ''TypeB''), (''Value'', ''y'')]
                = [(''Type'', ''TypeB''), (''Value'', ''y'')]"
    by code_simp
  show ?thesis
    using serializeRow_asserts_head_width [of "\<lparr>rowId = ''0'', cells = [''TypeA'', ''x'']\<rparr>" "\<lparr>headCells = [''Type'', ''Value'']\<rparr>" exampleTable]
      serializeRow_asserts_head_width [of "\<lparr>rowId = ''0'', cells = [''TypeA'', ''x'']\<rparr>" "\<lparr>headCells = [''Type'']\<rparr>" mismatchedTable]
    by (simp add: exampleTable_def mismatchedTable_def rowA rowB)
qed





text \<open>
  The string form alone: at the frame \<^verbatim>\<open>{"a": {"0": null}}\<close> the serialised row maps
  \<^verbatim>\<open>a\<close> to the string \<^verbatim>\<open>null\<close>, the row of the frame maps it to the value null.
\<close>

lemma roundTrip_null_value:
  "exampleJSONparse (data_frame nullTableData) = Inr nullFrame
   \<and> roundTrip exampleJSONparse exampleFmt exampleTranslate ''en'' nullTableData
       = Inr (''t'', RowsValue [[(''a'', ''null'')]])
   \<and> frameRow nullFrame 0 = [(''a'', JNull)]
   \<and> asValues [(''a'', ''null'')] \<noteq> frameRow nullFrame 0"
  by code_simp

section \<open>Properties of the visualization pipeline\<close>

text \<open>
  C6, as amended. When the preparation throws the \<^verbatim>\<open>RangeError\<close> with the message
  \<^verbatim>\<open>Invalid time value\<close>, the worker writes to the console at info level only, and the
  caller of the hook sees the status \<^verbatim>\<open>error\<close> with no data; for every other exception
  the worker logs the error twice with \<^verbatim>\<open>console.error\<close>, and the caller sees the same
  status \<^verbatim>\<open>error\<close> with no data. The status \<^verbatim>\<open>success\<close> with no data is what the caller
  sees when the preparation returns chart data whose records all carry an invalid
  key \<^verbatim>\<open>__x\<close>.
\<close>

theorem invalid_time_value_reported_as_error:
  "(dispatchVisualization pc pt (Some t) (Some v) = Inl (Exn RangeError ''Invalid time value'')
      \<longrightarrow> useVisualizationData pc pt t v =
            ([ConsoleInfo ''Info: Invalid time value encountered in createVisualizationData:''
                (Some (Exn RangeError ''Invalid time value'')),
              ConsoleInfo [] None],
             (None, StatusError)))
   \<and> (dispatchVisualization pc pt (Some t) (Some v) = Inl e \<and> \<not> isInvalidTimeValue e
      \<longrightarrow> useVisualizationData pc pt t v =
            ([ConsoleError ''Error in createVisualizationData:'' e,
              ConsoleError ''Error in visualizationDataWorker:'' e],
             (None, StatusError)))
   \<and> (dispatchVisualization pc pt (Some t) (Some v) = Inr (ChartVisualizationData dat rest)
        \<and> (\<forall>item\<in>set dat. itemX item \<in> set invalidKeys)
      \<longrightarrow> useVisualizationData pc pt t v = ([], (None, StatusSuccess)))"
proof (intro conjI impI)
  assume "dispatchVisualization pc pt (Some t) (Some v) = Inl (Exn RangeError ''Invalid time value'')"
  then show "useVisualizationData pc pt t v =
            ([ConsoleInfo ''Info: Invalid time value encountered in createVisualizationData:''
                (Some (Exn RangeError ''Invalid time value'')),
              ConsoleInfo [] None],
             (None, StatusError))"
    by (simp add: useVisualizationData_def workerOnmessage_def createVisualizationData_def
        hookOnmessage_def isInvalidTimeValue_def)
next
  assume "dispatchVisualization pc pt (Some t) (Some v) = Inl e \<and> \<not> isInvalidTimeValue e"
  then show "useVisualizationData pc pt t v =
            ([ConsoleError ''Error in createVisualizationData:'' e,
              ConsoleError ''Error in visualizationDataWorker:'' e],
             (None, StatusError))"
    by (simp add: useVisualizationData_def workerOnmessage_def createVisualizationData_def
        hookOnmessage_def)
next
  assume a: "dispatchVisualization pc pt (Some t) (Some v) = Inr (ChartVisualizationData dat rest)
        \<and> (\<forall>item\<in>set dat. itemX item \<in> set invalidKeys)"
  then have "filter (\<lambda>item. itemX item \<notin> set invalidKeys) dat = []"
    by (simp add: filter_empty_conv)
  with a show "useVisualizationData pc pt t v = ([], (None, StatusSuccess))"
    by (simp add: useVisualizationData_def workerOnmessage_def createVisualizationData_def
        hookOnmessage_def)
qed

theorem invalid_time_value_reported_as_error_witness:
  "dispatchVisualization invalidTimePrepare invalidTimePrepare (Some exampleTable) (Some lineChart)
     = Inl (Exn RangeError ''Invalid time value'')
   \<and> snd (useVisualizationData invalidTimePrepare invalidTimePrepare exampleTable lineChart)
       = (None, StatusError)
   \<and> dispatchVisualization failingPrepare failingPrepare (Some exampleTable) (Some lineChart)
       = Inl (Exn TypeError ''Cannot read properties of undefined'')
   \<and> \<not> isInvalidTimeValue (Exn TypeError ''Cannot read properties of undefined'')
   \<and> snd (useVisualizationData failingPrepare failingPrepare exampleTable lineChart)
       = (None, StatusError)
   \<and> dispatchVisualization invalidKeyPrepare invalidKeyPrepare (Some exampleTable) (Some lineChart)
       = Inr (ChartVisualizationData [[(''__x'', JStr ''Invalid Date''), (''y'', JStr ''1'')]] ())
   \<and> itemX [(''__x'', JStr ''Invalid Date''), (''y'', JStr ''1'')]
         \<in> set (invalidKeys :: unit jsval list)
   \<and> useVisualizationData invalidKeyPrepare invalidKeyPrepare exampleTable lineChart
       = ([], (None, StatusSuccess))"
  using invalid_time_value_reported_as_error [of invalidTimePrepare invalidTimePrepare exampleTable lineChart]
    invalid_time_value_reported_as_error [of failingPrepare failingPrepare exampleTable lineChart
          "Exn TypeError ''Cannot read properties of undefined''"]
    invalid_time_value_reported_as_error [of invalidKeyPrepare invalidKeyPrepare exampleTable lineChart _
          "[[(''__x'', JStr ''Invalid Date''), (''y'', JStr ''1'')]]" "()"]
  by (simp add: dispatchVisualization_def invalidTimePrepare_def failingPrepare_def
      invalidKeyPrepare_def lineChart_def isInvalidTimeValue_def itemX_def invalidKeys_def)

text \<open>
  C6 as stated fails where the preparation of a line chart throws the \<^verbatim>\<open>RangeError\<close>
  \<^verbatim>\<open>Invalid time value\<close>: the status that the caller sees is \<^verbatim>\<open>error\<close>, not
  \<^verbatim>\<open>success\<close>.
\<close>

theorem invalid_time_value_status_counterexample:
  "dispatchVisualization invalidTimePrepare invalidTimePrepare (Some exampleTable) (Some lineChart)
     = Inl (Exn RangeError ''Invalid time value'')
   \<and> snd (snd (useVisualizationData invalidTimePrepare invalidTimePrepare exampleTable lineChart))
       = StatusError
   \<and> snd (snd (useVisualizationData invalidTimePrepare invalidTimePrepare exampleTable lineChart))
       \<noteq> StatusSuccess"
  by (simp add: useVisualizationData_def workerOnmessage_def createVisualizationData_def
      hookOnmessage_def dispatchVisualization_def invalidTimePrepare_def lineChart_def)

text \<open>
  C7. With a table and a descriptor present, \<^verbatim>\<open>createVisualizationData\<close> is decided
  by the type tag alone: \<^verbatim>\<open>line\<close>, \<^verbatim>\<open>bar\<close> and \<^verbatim>\<open>area\<close> give the result of the chart
  preparation, \<^verbatim>\<open>wordcloud\<close> that of the text preparation, and every other tag the
  error \<^verbatim>\<open>Visualization type ... not supported\<close>, which the worker logs and posts as
  status \<^verbatim>\<open>error\<close>, and which the caller of the hook sees as status \<^verbatim>\<open>error\<close>.
\<close>

theorem createVisualizationData_dispatches_on_type:
  "snd (createVisualizationData pc pt (Some t) (Some v)) =
     (if visType v = ''line'' \<or> visType v = ''bar'' \<or> visType v = ''area'' then pc t v
      else if visType v = ''wordcloud'' then pt t v
      else Inl (Exn Error (''Visualization type '' @ visType v @ '' not supported'')))
   \<and> (visType v \<notin> {''line'', ''bar'', ''area'', ''wordcloud''}
      \<longrightarrow> workerOnmessage pc pt \<lparr>inputTable = Some t, inputVisualization = Some v\<rparr> =
            ([ConsoleError ''Error in createVisualizationData:''
                (Exn Error (''Visualization type '' @ visType v @ '' not supported'')),
              ConsoleError ''Error in visualizationDataWorker:''
                (Exn Error (''Visualization type '' @ visType v @ '' not supported''))],
             \<lparr>status = StatusError, visualizationData = None\<rparr>)
          \<and> snd (useVisualizationData pc pt t v) = (None, StatusError))"
  by (auto simp: useVisualizationData_def workerOnmessage_def createVisualizationData_def
      hookOnmessage_def dispatchVisualization_def isInvalidTimeValue_def split: sum.splits)

theorem createVisualizationData_dispatches_on_type_witness:
  "visType pieChart \<notin> {''line'', ''bar'', ''area'', ''wordcloud''}
   \<and> snd (createVisualizationData invalidKeyPrepare invalidKeyPrepare (Some exampleTable) (Some pieChart))
       = Inl (Exn Error ''Visualization type pie not supported'')
   \<and> snd (useVisualizationData invalidKeyPrepare invalidKeyPrepare exampleTable pieChart)
       = (None, StatusError)"
  using createVisualizationData_dispatches_on_type [of invalidKeyPrepare invalidKeyPrepare exampleTable pieChart]
  by (simp add: pieChart_def)

section \<open>The search state and the donated payload\<close>

lemma table_step:
  "table (step RegExp c ev) = foldl applyLedgerOp (table c) (eventOps c ev)"
proof (cases ev)
  case (Delete r)
  then show ?thesis
    by (simp add: handleDelete_def deletionBatch_def Let_def)
next
  case Undo
  then show ?thesis by (simp add: handleUndo_def Let_def)
qed (simp_all split: sum.splits)

lemma table_run:
  "table (run RegExp c evs) = foldl applyLedgerOp (table c) (ledgerTrace RegExp c evs)"
  by (induction evs arbitrary: c) (simp_all add: table_step)

text \<open>
  C10. Two runs of a container on the same table that perform the same sequence of
  ledger actions (the same deletion batches and undos in the same order), and differ
  in any way in their search state, in the search events between the actions and in
  the \<^verbatim>\<open>RegExp\<close> constructor, end with the same table; so the serialised table and the
  serialised consent data of a form that holds this table are the same.
\<close>

theorem search_state_does_not_reach_payload:
  assumes "table c1 = table c2"
    and "ledgerTrace RegExp1 c1 evs1 = ledgerTrace RegExp2 c2 evs2"
  shows "table (run RegExp1 c1 evs1) = table (run RegExp2 c2 evs2)
       \<and> serializeTable (table (run RegExp1 c1 evs1)) = serializeTable (table (run RegExp2 c2 evs2))
       \<and> serializeConsentData stringify stringifyStrings
            (before @ table (run RegExp1 c1 evs1) # after) metaTables
         = serializeConsentData stringify stringifyStrings
            (before @ table (run RegExp2 c2 evs2) # after) metaTables"
proof -
  have "table (run RegExp1 c1 evs1) = table (run RegExp2 c2 evs2)"
    using assms by (simp add: table_run)
  then show ?thesis by simp
qed

theorem search_state_does_not_reach_payload_witness:
  "table exampleContainer = table searchingContainer
   \<and> ledgerTrace fragmentRegExp exampleContainer [Delete (Some [''0''])]
       = ledgerTrace fragmentRegExp searchingContainer
           [OnSearch ''x'', SearchTimer, OnDataTypeFilter ''TypeA'', SearchTimer, Delete (Some [''0''])]
   \<and> serializeConsentData exampleStringify exampleStringifyStrings
        [table (run fragmentRegExp exampleContainer [Delete (Some [''0''])])] []
     = serializeConsentData exampleStringify exampleStringifyStrings
        [table (run fragmentRegExp searchingContainer
           [OnSearch ''x'', SearchTimer, OnDataTypeFilter ''TypeA'', SearchTimer, Delete (Some [''0''])])] []"
proof -
  have tables: "table exampleContainer = table searchingContainer"
    by (simp add: exampleContainer_def searchingContainer_def)
  have traces: "ledgerTrace fragmentRegExp exampleContainer [Delete (Some [''0''])]
       = ledgerTrace fragmentRegExp searchingContainer
           [OnSearch ''x'', SearchTimer, OnDataTypeFilter ''TypeA'', SearchTimer, Delete (Some [''0''])]"
    by (simp add: deletionBatch_def)
  from search_state_does_not_reach_payload [OF tables traces, of exampleStringify exampleStringifyStrings "[]" "[]" "[]"]
  show ?thesis using tables traces by simp
qed

end
